theory Spec2Isabelle
  imports Complex_Main "HOL-Library.AList" "HOL-Library.Sublist"
begin

section \<open>Data model of \<open>src/main.py\<close>\<close>

text \<open>
  The values the program handles are parsed JSON: the organic results of the search API,
  the relevance array and the lead object returned by the language model. \<open>JNum\<close> holds
  Python's \<open>int\<close> and finite \<open>float\<close> values (every finite double is a rational, and Python
  compares \<open>1 == 1.0\<close> by value); \<open>JNonFinite\<close> stands for \<open>NaN\<close> and the infinities, which
  \<open>json.loads\<close> accepts. A parsed object is a \<open>dict\<close>: an association list with distinct
  keys, in insertion order.
\<close>

datatype json =
    JNull
  | JBool bool
  | JNum rat
  | JNonFinite
  | JStr string
  | JArr "json list"
  | JObj "(string \<times> json) list"

type_synonym dict = "(string \<times> json) list"

text \<open>Python truth value testing (\<open>if x:\<close>, \<open>not x\<close>).\<close>

fun truthy :: "json \<Rightarrow> bool" where
  "truthy JNull = False"
| "truthy (JBool b) = b"
| "truthy (JNum q) = (q \<noteq> 0)"
| "truthy JNonFinite = True"
| "truthy (JStr s) = (s \<noteq> [])"
| "truthy (JArr xs) = (xs \<noteq> [])"
| "truthy (JObj kvs) = (kvs \<noteq> [])"

text \<open>Python \<open>v == i\<close> for a parsed JSON value \<open>v\<close> and an \<open>int\<close> \<open>i\<close>: numbers compare by
  value, \<open>True == 1\<close> and \<open>False == 0\<close>, everything else is unequal to an \<open>int\<close>.\<close>

fun eq_int :: "json \<Rightarrow> int \<Rightarrow> bool" where
  "eq_int (JNum q) i = (q = of_int i)"
| "eq_int (JBool b) i = ((if b then 1 else 0) = i)"
| "eq_int JNull i = False"
| "eq_int JNonFinite i = False"
| "eq_int (JStr s) i = False"
| "eq_int (JArr xs) i = False"
| "eq_int (JObj kvs) i = False"

text \<open>\<open>d.get(k, dflt)\<close>\<close>

definition dict_get :: "dict \<Rightarrow> string \<Rightarrow> json \<Rightarrow> json" where
  "dict_get d k dflt = (case map_of d k of None \<Rightarrow> dflt | Some v \<Rightarrow> v)"

text \<open>\<open>xs[:n]\<close> for a Python \<open>int\<close> \<open>n\<close>: a negative \<open>n\<close> drops the last \<open>-n\<close> elements.\<close>

definition py_prefix :: "int \<Rightarrow> 'a list \<Rightarrow> 'a list" where
  "py_prefix n xs = (if 0 \<le> n then take (nat n) xs else take (length xs - nat (- n)) xs)"

text \<open>\<open>sep.join(xs)\<close>\<close>

fun join :: "string \<Rightarrow> string list \<Rightarrow> string" where
  "join sep [] = []"
| "join sep [x] = x"
| "join sep (x # y # ys) = x @ sep @ join sep (y # ys)"

text \<open>\<open>xs.index(x)\<close>: the position of the first element equal to \<open>x\<close>; \<open>None\<close> is
  Python's \<open>ValueError\<close>.\<close>

fun index_of :: "'a list \<Rightarrow> 'a \<Rightarrow> nat option" where
  "index_of [] x = None"
| "index_of (y # ys) x = (if y = x then Some 0 else map_option Suc (index_of ys x))"

datatype error = NameError | KeyError string

text \<open>
  One organic search result. The program reads the keys \<open>title\<close>, \<open>snippet\<close> and \<open>link\<close>;
  \<open>None\<close> is an absent key (\<open>evaluate_relevance\<close> reads all three with \<open>.get\<close>, the
  controller reads \<open>title\<close> and \<open>link\<close> with \<open>result[...]\<close>, which raises \<open>KeyError\<close>).
\<close>

record search_result =
  title :: "string option"
  snippet :: "string option"
  link :: "string option"

text \<open>A result after \<open>evaluate_relevance\<close>: \<open>result.copy()\<close> with the three keys added.\<close>

record judged =
  res :: search_result
  is_relevant :: json
  relevance_confidence :: json
  relevance_reason :: json

record config =
  max_retries :: int
  relevance_threshold :: rat

text \<open>\<open>__init__\<close>: \<open>self.max_retries = 3\<close>, \<open>self.relevance_threshold = 0.6\<close>.\<close>

definition default_config :: config where
  "default_config = \<lparr>max_retries = 3, relevance_threshold = 6 / 10\<rparr>"

text \<open>
  The outside world. The remote services (search API, language model, browser) are not
  functions of their request alone: the first argument of each is the ordinal of the call
  (the attempt number \<open>retry_count\<close> for search, judging and refinement; the position of
  the candidate for fetching and extraction), which stands for whatever hidden state the
  service has. \<open>None\<close> is any exception raised by the call.

  \<^item> \<open>serper q num\<close>: \<open>requests.post\<close> with \<open>"q": q, "num": num\<close>, then \<open>raise_for_status\<close> and
    \<open>.json().get("organic", [])\<close>.
  \<^item> \<open>llm_relevance original_query results_summary\<close>: the chat completion for the relevance
    prompt, the slice from the first \<open>[\<close> to the last \<open>]\<close> and \<open>json.loads\<close> of it (a text that
    starts with \<open>[\<close> parses to an array or not at all).
  \<^item> \<open>llm_refine original_query failed_titles\<close>: the chat completion for the refinement
    prompt, stripped.
  \<^item> \<open>browser url\<close>: \<open>webdriver.Chrome\<close>, \<open>driver.get(url)\<close> and \<open>driver.page_source\<close>.
  \<^item> \<open>llm_extract content url\<close>: the chat completion for the extraction prompt, the slice
    from the first \<open>{\<close> to the last \<open>}\<close> and \<open>json.loads\<close> of it (an object or an exception).

  The remaining fields are the library functions the program calls on strings:
  \<open>soup_text\<close> is BeautifulSoup's parse, the removal of the unwanted elements and
  \<open>get_text()\<close>; \<open>splitlines\<close> and \<open>strip\<close> are the \<open>str\<close> methods; \<open>find_emails\<close>,
  \<open>find_phones\<close> and \<open>find_linkedin\<close> are \<open>re.findall\<close> with the three patterns of
  \<open>_create_fallback_lead_data\<close> (the phone pattern has four groups, so it yields
  4-tuples); \<open>netloc\<close> is \<open>urlparse(url).netloc\<close> and \<open>title_case\<close> is \<open>str.title\<close>.
\<close>

record env =
  serper :: "nat \<Rightarrow> string \<Rightarrow> int \<Rightarrow> search_result list option"
  llm_relevance :: "nat \<Rightarrow> string \<Rightarrow> (int \<times> string \<times> string \<times> string) list \<Rightarrow> json list option"
  llm_refine :: "nat \<Rightarrow> string \<Rightarrow> string list \<Rightarrow> string option"
  browser :: "nat \<Rightarrow> string \<Rightarrow> string option"
  llm_extract :: "nat \<Rightarrow> string \<Rightarrow> string \<Rightarrow> dict option"
  soup_text :: "string \<Rightarrow> string"
  splitlines :: "string \<Rightarrow> string list"
  strip :: "string \<Rightarrow> string"
  find_emails :: "string \<Rightarrow> string list"
  find_phones :: "string \<Rightarrow> (string \<times> string \<times> string \<times> string) list"
  find_linkedin :: "string \<Rightarrow> string list"
  netloc :: "string \<Rightarrow> string"
  title_case :: "string \<Rightarrow> string"

text \<open>
  The calls the controller \<open>generate_leads_dataframe\<close> makes to the five methods it
  drives, in order and with their arguments: \<open>search_companies\<close>, \<open>evaluate_relevance\<close>,
  \<open>refine_search_query\<close>, \<open>scrape_website\<close> and \<open>extract_lead_info\<close>. Each of the five
  contacts its remote service exactly once per call, whatever happens, so the list of
  these calls is also the list of the remote requests.
\<close>

datatype event =
    SearchCall string int
  | JudgeCall "search_result list" string
  | RefineCall string "judged list"
  | FetchCall string
  | ExtractCall string string

section \<open>\<open>search_companies\<close>\<close>

definition search_companies :: "env \<Rightarrow> nat \<Rightarrow> string \<Rightarrow> int \<Rightarrow> search_result list" where
  "search_companies e k query num_results =
     (case serper e k query (num_results * 2) of
        Some results \<Rightarrow> results
      | None \<Rightarrow> [])"

section \<open>\<open>evaluate_relevance\<close>\<close>

definition str_or_empty :: "string option \<Rightarrow> string" where
  "str_or_empty v = (case v of None \<Rightarrow> [] | Some s \<Rightarrow> s)"

definition results_summary :: "search_result list \<Rightarrow> (int \<times> string \<times> string \<times> string) list" where
  "results_summary search_results =
     map (\<lambda>(i, result). (int i, str_or_empty (title result), str_or_empty (snippet result),
                          str_or_empty (link result)))
       (enumerate 0 search_results)"

text \<open>
  The inner loop \<open>for rel_data in relevance_data\<close>. The outer \<open>None\<close> is an exception
  (\<open>rel_data.get\<close> on a value that is not a \<open>dict\<close>, or \<open>ValueError\<close> of \<open>index\<close>); \<open>Some None\<close>
  is the loop running to its end with \<open>relevance_info\<close> still \<open>None\<close>.
\<close>

fun find_relevance :: "search_result list \<Rightarrow> json list \<Rightarrow> search_result \<Rightarrow> dict option option" where
  "find_relevance search_results [] result = Some None"
| "find_relevance search_results (rel_data # rest) result =
     (case rel_data of
        JObj d \<Rightarrow>
          (case index_of search_results result of
             None \<Rightarrow> None
           | Some i \<Rightarrow>
               if eq_int (dict_get d ''index'' JNull) (int i) then Some (Some d)
               else find_relevance search_results rest result)
      | _ \<Rightarrow> None)"

definition unmatched :: "search_result \<Rightarrow> judged" where
  "unmatched result =
     \<lparr>res = result, is_relevant = JBool False, relevance_confidence = JNum 0,
      relevance_reason = JStr ''Could not evaluate relevance''\<rparr>"

text \<open>The body of \<open>for result in search_results\<close>; \<open>None\<close> is an exception.\<close>

definition enhance :: "search_result list \<Rightarrow> json list \<Rightarrow> search_result \<Rightarrow> judged option" where
  "enhance search_results relevance_data result =
     (case find_relevance search_results relevance_data result of
        None \<Rightarrow> None
      | Some None \<Rightarrow> Some (unmatched result)
      | Some (Some relevance_info) \<Rightarrow>
          Some (if relevance_info \<noteq> [] then
                  \<lparr>res = result,
                   is_relevant = dict_get relevance_info ''is_relevant'' (JBool False),
                   relevance_confidence = dict_get relevance_info ''confidence'' (JNum 0),
                   relevance_reason = dict_get relevance_info ''reason'' (JStr ''No reason provided'')\<rparr>
                else unmatched result))"

text \<open>The \<open>except Exception\<close> branch: every result relevant, confidence 0.5.\<close>

definition default_relevance :: "search_result \<Rightarrow> judged" where
  "default_relevance result =
     \<lparr>res = result, is_relevant = JBool True, relevance_confidence = JNum (1 / 2),
      relevance_reason = JStr ''Could not evaluate''\<rparr>"

definition evaluate_relevance ::
  "env \<Rightarrow> nat \<Rightarrow> search_result list \<Rightarrow> string \<Rightarrow> judged list" where
  "evaluate_relevance e k search_results original_query =
     (case llm_relevance e k original_query (results_summary search_results) of
        None \<Rightarrow> map default_relevance search_results
      | Some relevance_data \<Rightarrow>
          (case those (map (enhance search_results relevance_data) search_results) of
             None \<Rightarrow> map default_relevance search_results
           | Some enhanced_results \<Rightarrow> enhanced_results))"

section \<open>\<open>refine_search_query\<close>\<close>

definition refine_search_query :: "env \<Rightarrow> nat \<Rightarrow> string \<Rightarrow> judged list \<Rightarrow> string" where
  "refine_search_query e k original_query failed_results =
     (let failed_titles =
            map (\<lambda>result. str_or_empty (title (res result)))
              (filter (\<lambda>result. \<not> truthy (is_relevant result)) failed_results)
      in case llm_refine e k original_query failed_titles of
           Some refined_query \<Rightarrow> refined_query
         | None \<Rightarrow> original_query @ '' company contact information'')"

section \<open>\<open>clean_html_content\<close> and \<open>scrape_website\<close>\<close>

text \<open>\<open>s.split(sep)\<close> for a non-empty separator: the pieces between the non-overlapping
  occurrences of \<open>sep\<close>, found from the left. \<open>acc\<close> is the current piece, reversed.\<close>

function split_sep :: "string \<Rightarrow> string \<Rightarrow> string \<Rightarrow> string list" where
  "split_sep sep acc [] = [rev acc]"
| "split_sep sep acc (c # cs) =
     (if sep \<noteq> [] \<and> prefix sep (c # cs)
      then rev acc # split_sep sep [] (drop (length sep) (c # cs))
      else split_sep sep (c # acc) cs)"
  by pat_completeness auto
termination
  by (relation "measure (\<lambda>(sep, acc, s). length s)") auto

definition clean_html_content :: "env \<Rightarrow> string \<Rightarrow> string" where
  "clean_html_content e html_content =
     (let text = soup_text e html_content;
          lines = map (strip e) (splitlines e text);
          chunks = concat (map (\<lambda>line. map (strip e) (split_sep ''  '' [] line)) lines);
          text' = join '' '' (filter (\<lambda>chunk. chunk \<noteq> []) chunks)
      in take 8000 text')"

definition scrape_website :: "env \<Rightarrow> nat \<Rightarrow> string \<Rightarrow> string option" where
  "scrape_website e i url =
     (case browser e i url of
        Some html_content \<Rightarrow> Some (clean_html_content e html_content)
      | None \<Rightarrow> None)"

section \<open>\<open>extract_lead_info\<close> and \<open>_create_fallback_lead_data\<close>\<close>

text \<open>\<open>s.replace(old, new)\<close> for a non-empty \<open>old\<close>.\<close>

function str_replace :: "string \<Rightarrow> string \<Rightarrow> string \<Rightarrow> string" where
  "str_replace old new [] = []"
| "str_replace old new (c # cs) =
     (if old \<noteq> [] \<and> prefix old (c # cs)
      then new @ str_replace old new (drop (length old) (c # cs))
      else c # str_replace old new cs)"
  by pat_completeness auto
termination
  by (relation "measure (\<lambda>(old, new, s). length s)") auto

definition create_fallback_lead_data :: "env \<Rightarrow> string \<Rightarrow> string \<Rightarrow> dict" where
  "create_fallback_lead_data e website_url content =
     (let emails = find_emails e content;
          phones = find_phones e content;
          linkedin_urls = find_linkedin e content;
          domain = str_replace ''www.'' [] (netloc e website_url);
          company_name = title_case e (takeWhile (\<lambda>c. c \<noteq> CHR ''.'') domain)
      in [(''company_name'', JStr company_name),
          (''email'', JStr (if emails \<noteq> [] then join '', '' (take 3 emails) else ''N/A'')),
          (''phone'', JStr (if phones \<noteq> []
                            then join '', '' (map (\<lambda>(g1, g2, g3, g4). join ''-'' [g2, g3, g4]) (take 2 phones))
                            else ''N/A'')),
          (''linkedin'', JStr (if linkedin_urls \<noteq> [] then join '', '' (take 2 linkedin_urls) else ''N/A'')),
          (''website'', JStr website_url),
          (''industry'', JStr ''N/A''),
          (''description'', JStr (if length content > 200 then take 200 content @ ''...'' else content)),
          (''address'', JStr ''N/A''),
          (''contact_person'', JStr ''N/A''),
          (''services'', JStr ''N/A''),
          (''company_size'', JStr ''N/A''),
          (''founded_year'', JStr ''N/A''),
          (''revenue_range'', JStr ''N/A''),
          (''technologies'', JStr ''N/A''),
          (''social_media'', JStr ''N/A'')])"

definition extract_lead_info :: "env \<Rightarrow> nat \<Rightarrow> string \<Rightarrow> string \<Rightarrow> dict" where
  "extract_lead_info e i content website_url =
     (case llm_extract e i content website_url of
        Some lead_data \<Rightarrow> lead_data
      | None \<Rightarrow> create_fallback_lead_data e website_url content)"

section \<open>\<open>generate_leads_dataframe\<close>\<close>

subsection \<open>The search, judge, refine loop\<close>

text \<open>
  How the \<open>while\<close> loop is left: \<open>NoResults\<close> is the \<open>return pd.DataFrame()\<close> of an empty
  search, \<open>Accepted relevant_results evaluated_results\<close> is either \<open>break\<close>, and \<open>NotEntered\<close>
  is the loop condition being false. The condition is tested again only after
  \<open>continue\<close>, which is taken under \<open>retry_count < max_retries - 1\<close>, so it can only be
  false on the first test, with \<open>relevant_results\<close> still unbound.

  \<open>relevance_rate\<close> is a Python \<open>float\<close> compared with the \<open>float\<close> threshold; the model
  compares the exact quotient with a rational threshold. For the default \<open>0.6\<close> the two
  agree on every list shorter than \<open>2^50\<close>: the quotient \<open>3/5\<close> rounds to the double that the
  literal \<open>0.6\<close> denotes, and any other quotient \<open>k/n\<close> is at least \<open>1/(5n)\<close> away from it.
\<close>

datatype loop_exit = NoResults | Accepted "judged list" "judged list" | NotEntered

definition relevance_rate :: "judged list \<Rightarrow> judged list \<Rightarrow> rat" where
  "relevance_rate relevant_results evaluated_results =
     (if evaluated_results \<noteq> []
      then of_nat (length relevant_results) / of_nat (length evaluated_results)
      else 0)"

function search_loop ::
  "env \<Rightarrow> config \<Rightarrow> string \<Rightarrow> int \<Rightarrow> string \<Rightarrow> nat \<Rightarrow> loop_exit \<times> event list" where
  "search_loop e cfg search_query num_results current_query retry_count =
     (if int retry_count < max_retries cfg then
        (let search_results = search_companies e retry_count current_query (num_results * 2);
             ev1 = SearchCall current_query (num_results * 2)
         in if search_results = [] then (NoResults, [ev1])
            else
              (let evaluated_results =
                     evaluate_relevance e retry_count search_results search_query;
                   ev2 = JudgeCall search_results search_query;
                   relevant_results = filter (\<lambda>r. truthy (is_relevant r)) evaluated_results
               in if relevance_rate relevant_results evaluated_results
                       \<ge> relevance_threshold cfg
                  then (Accepted relevant_results evaluated_results, [ev1, ev2])
                  else if int retry_count < max_retries cfg - 1 then
                    (let refined =
                           refine_search_query e retry_count search_query evaluated_results;
                         ev3 = RefineCall search_query evaluated_results
                     in case search_loop e cfg search_query num_results refined
                               (Suc retry_count) of
                          (exit, evs) \<Rightarrow> (exit, ev1 # ev2 # ev3 # evs))
                  else (Accepted relevant_results evaluated_results, [ev1, ev2])))
      else (NotEntered, []))"
  by pat_completeness auto
termination
  by (relation "measure (\<lambda>(e, cfg, sq, n, cq, k). nat (max_retries cfg - int k))") auto

declare search_loop.simps [simp del]

subsection \<open>Selection and the per-candidate loop\<close>

definition final_results :: "int \<Rightarrow> judged list \<Rightarrow> judged list \<Rightarrow> judged list" where
  "final_results num_results relevant_results evaluated_results =
     (if relevant_results \<noteq> [] then py_prefix num_results relevant_results
      else py_prefix num_results evaluated_results)"

text \<open>The six assignments \<open>lead_data[...] = ...\<close>; \<open>now\<close> is \<open>datetime.now().isoformat()\<close>.\<close>

definition add_metadata :: "judged \<Rightarrow> string \<Rightarrow> string \<Rightarrow> dict \<Rightarrow> dict" where
  "add_metadata result t now lead_data =
     AList.update ''scraped_at'' (JStr now)
       (AList.update ''relevance_reason'' (relevance_reason result)
         (AList.update ''relevance_confidence'' (relevance_confidence result)
           (AList.update ''is_relevant'' (is_relevant result)
             (AList.update ''search_snippet'' (JStr (str_or_empty (snippet (res result))))
               (AList.update ''search_title'' (JStr t) lead_data)))))"

text \<open>
  One iteration of \<open>for i, result in enumerate(final_results, 1)\<close>. \<open>clock i\<close> is the
  reading of the wall clock in iteration \<open>i\<close>. The result is the record appended to
  \<open>all_leads\<close>, if any; \<open>Inl\<close> is the \<open>KeyError\<close> of \<open>result['title']\<close> or \<open>result['link']\<close>,
  which nothing catches.
\<close>

definition process_candidate ::
  "env \<Rightarrow> (nat \<Rightarrow> string) \<Rightarrow> nat \<Rightarrow> judged \<Rightarrow> (error + dict option) \<times> event list" where
  "process_candidate e clock i result =
     (case title (res result) of
        None \<Rightarrow> (Inl (KeyError ''title''), [])
      | Some t \<Rightarrow>
          (case link (res result) of
             None \<Rightarrow> (Inl (KeyError ''link''), [])
           | Some l \<Rightarrow>
               (case scrape_website e i l of
                  None \<Rightarrow> (Inr None, [FetchCall l])
                | Some content \<Rightarrow>
                    if content \<noteq> [] then
                      (let lead_data = extract_lead_info e i content l
                       in (Inr (Some (add_metadata result t (clock i) lead_data)),
                           [FetchCall l, ExtractCall content l]))
                    else (Inr None, [FetchCall l]))))"

fun collect_leads ::
  "env \<Rightarrow> (nat \<Rightarrow> string) \<Rightarrow> nat \<Rightarrow> judged list \<Rightarrow> (error + dict list) \<times> event list" where
  "collect_leads e clock i [] = (Inr [], [])"
| "collect_leads e clock i (result # rest) =
     (case process_candidate e clock i result of
        (Inl err, ev) \<Rightarrow> (Inl err, ev)
      | (Inr lead, ev) \<Rightarrow>
          (case collect_leads e clock (Suc i) rest of
             (Inl err, evs) \<Rightarrow> (Inl err, ev @ evs)
           | (Inr all_leads, evs) \<Rightarrow>
               (Inr (case lead of None \<Rightarrow> all_leads | Some lead_data \<Rightarrow> lead_data # all_leads),
                ev @ evs)))"

subsection \<open>The data frame\<close>

text \<open>
  \<open>pd.DataFrame(all_leads)\<close> followed by the column selection: the columns are the names
  of \<open>column_order\<close> that are a key of some record, and a record without the key has a
  missing cell (\<open>None\<close> here, \<open>NaN\<close> in pandas). \<open>pd.DataFrame()\<close> has no column and no row.
\<close>

record dataframe =
  columns :: "string list"
  rows :: "json option list list"

definition empty_dataframe :: dataframe where
  "empty_dataframe = \<lparr>columns = [], rows = []\<rparr>"

definition column_order :: "string list" where
  "column_order =
     [''company_name'', ''email'', ''phone'', ''linkedin'', ''website'', ''industry'',
      ''description'', ''address'', ''contact_person'', ''services'', ''company_size'',
      ''founded_year'', ''revenue_range'', ''technologies'', ''social_media'',
      ''is_relevant'', ''relevance_confidence'', ''relevance_reason'',
      ''search_title'', ''search_snippet'', ''scraped_at'']"

definition to_dataframe :: "dict list \<Rightarrow> dataframe" where
  "to_dataframe all_leads =
     (let available_columns =
            filter (\<lambda>col. list_ex (\<lambda>lead. map_of lead col \<noteq> None) all_leads) column_order
      in \<lparr>columns = available_columns,
          rows = map (\<lambda>lead. map (map_of lead) available_columns) all_leads\<rparr>)"

subsection \<open>The controller\<close>

text \<open>
  \<open>leads_from\<close> is the controller from the head of the \<open>while\<close> loop, in the loop state
  \<open>(current_query, retry_count)\<close>, up to the end of step 5: \<open>Inr None\<close> is an early
  \<open>return pd.DataFrame()\<close>, \<open>Inr (Some all_leads)\<close> is the list that reaches step 6.
\<close>

definition leads_from ::
  "env \<Rightarrow> (nat \<Rightarrow> string) \<Rightarrow> config \<Rightarrow> string \<Rightarrow> int \<Rightarrow> string \<Rightarrow> nat
     \<Rightarrow> (error + dict list option) \<times> event list" where
  "leads_from e clock cfg search_query num_results current_query retry_count =
     (case search_loop e cfg search_query num_results current_query retry_count of
        (NoResults, evs) \<Rightarrow> (Inr None, evs)
      | (NotEntered, evs) \<Rightarrow> (Inl NameError, evs)
      | (Accepted relevant_results evaluated_results, evs) \<Rightarrow>
          (let final = final_results num_results relevant_results evaluated_results
           in if final = [] then (Inr None, evs)
              else (case collect_leads e clock 1 final of
                      (Inl err, evs') \<Rightarrow> (Inl err, evs @ evs')
                    | (Inr all_leads, evs') \<Rightarrow> (Inr (Some all_leads), evs @ evs'))))"

definition finish :: "dict list option \<Rightarrow> dataframe" where
  "finish r =
     (case r of
        None \<Rightarrow> empty_dataframe
      | Some all_leads \<Rightarrow> if all_leads \<noteq> [] then to_dataframe all_leads else empty_dataframe)"

definition generate_leads_dataframe ::
  "env \<Rightarrow> (nat \<Rightarrow> string) \<Rightarrow> config \<Rightarrow> string \<Rightarrow> int
     \<Rightarrow> (error + dataframe) \<times> event list" where
  "generate_leads_dataframe e clock cfg search_query num_results =
     (case leads_from e clock cfg search_query num_results search_query 0 of
        (Inl err, evs) \<Rightarrow> (Inl err, evs)
      | (Inr r, evs) \<Rightarrow> (Inr (finish r), evs))"

text \<open>\<open>generate_leads\<close>: a fresh tool, hence the configuration of \<open>__init__\<close>.\<close>

definition generate_leads ::
  "env \<Rightarrow> (nat \<Rightarrow> string) \<Rightarrow> string \<Rightarrow> int \<Rightarrow> (error + dataframe) \<times> event list" where
  "generate_leads e clock search_query num_results =
     generate_leads_dataframe e clock default_config search_query num_results"

section \<open>Notions used to state the properties\<close>

text \<open>
  The relevance scorer fails: the call or the parsing of its answer raises, or the answer
  is an array with an element on which the matching loop raises. Both end in the
  \<open>except Exception\<close> branch of \<open>evaluate_relevance\<close>.
\<close>

definition scorer_fails :: "env \<Rightarrow> nat \<Rightarrow> search_result list \<Rightarrow> string \<Rightarrow> bool" where
  "scorer_fails e k search_results original_query =
     (case llm_relevance e k original_query (results_summary search_results) of
        None \<Rightarrow> True
      | Some relevance_data \<Rightarrow>
          those (map (enhance search_results relevance_data) search_results) = None)"

text \<open>Which method a call is to, and the count a search was asked for.\<close>

fun is_search :: "event \<Rightarrow> bool" where
  "is_search (SearchCall q c) = True"
| "is_search ev = False"

fun is_judge :: "event \<Rightarrow> bool" where
  "is_judge (JudgeCall rs q) = True"
| "is_judge ev = False"

fun is_refine :: "event \<Rightarrow> bool" where
  "is_refine (RefineCall q js) = True"
| "is_refine ev = False"

fun search_count :: "event \<Rightarrow> int option" where
  "search_count (SearchCall q c) = Some c"
| "search_count ev = None"

fun is_candidate_call :: "event \<Rightarrow> bool" where
  "is_candidate_call (FetchCall u) = True"
| "is_candidate_call (ExtractCall c u) = True"
| "is_candidate_call ev = False"

text \<open>
  The attempts of a run in which every attempt so far ended with \<open>continue\<close>: the query of
  attempt \<open>k\<close> (the original query, then what \<open>refine_search_query\<close> returned at the end
  of attempt \<open>k - 1\<close>), the results \<open>search_companies\<close> returns for it, their judgment, and
  the three calls of an attempt that ends with \<open>continue\<close>. \<open>low_relevance\<close> is the
  \<open>else\<close> branch of \<open>if relevance_rate >= self.relevance_threshold\<close>.
\<close>

definition relevant_of :: "judged list \<Rightarrow> judged list" where
  "relevant_of evaluated_results = filter (\<lambda>r. truthy (is_relevant r)) evaluated_results"

definition low_relevance :: "config \<Rightarrow> judged list \<Rightarrow> bool" where
  "low_relevance cfg evaluated_results =
     (\<not> relevance_rate (relevant_of evaluated_results) evaluated_results \<ge> relevance_threshold cfg)"

fun attempt_query :: "env \<Rightarrow> string \<Rightarrow> int \<Rightarrow> nat \<Rightarrow> string" where
  "attempt_query e search_query num_results 0 = search_query"
| "attempt_query e search_query num_results (Suc k) =
     refine_search_query e k search_query
       (evaluate_relevance e k
          (search_companies e k (attempt_query e search_query num_results k) (num_results * 2))
          search_query)"

definition attempt_results :: "env \<Rightarrow> string \<Rightarrow> int \<Rightarrow> nat \<Rightarrow> search_result list" where
  "attempt_results e search_query num_results k =
     search_companies e k (attempt_query e search_query num_results k) (num_results * 2)"

definition attempt_judged :: "env \<Rightarrow> string \<Rightarrow> int \<Rightarrow> nat \<Rightarrow> judged list" where
  "attempt_judged e search_query num_results k =
     evaluate_relevance e k (attempt_results e search_query num_results k) search_query"

definition refined_attempt :: "env \<Rightarrow> string \<Rightarrow> int \<Rightarrow> nat \<Rightarrow> event list" where
  "refined_attempt e search_query num_results k =
     [SearchCall (attempt_query e search_query num_results k) (num_results * 2),
      JudgeCall (attempt_results e search_query num_results k) search_query,
      RefineCall search_query (attempt_judged e search_query num_results k)]"

section \<open>Example worlds\<close>

text \<open>A world in which every remote service is down; the examples below override the
  services they need.\<close>

definition null_env :: env where
  "null_env =
     \<lparr>serper = (\<lambda>k q n. None), llm_relevance = (\<lambda>k q s. None), llm_refine = (\<lambda>k q ts. None),
      browser = (\<lambda>i u. None), llm_extract = (\<lambda>i c u. None),
      soup_text = (\<lambda>s. s), splitlines = (\<lambda>s. [s]), strip = (\<lambda>s. s),
      find_emails = (\<lambda>s. []), find_phones = (\<lambda>s. []), find_linkedin = (\<lambda>s. []),
      netloc = (\<lambda>s. s), title_case = (\<lambda>s. s)\<rparr>"

definition acme :: search_result where
  "acme = \<lparr>title = Some ''Acme'', snippet = Some ''CRM'', link = Some ''https://acme.example''\<rparr>"

definition acme_relevant :: judged where
  "acme_relevant =
     \<lparr>res = acme, is_relevant = JBool True, relevance_confidence = JNum (9 / 10),
      relevance_reason = JStr ''match''\<rparr>"

text \<open>The search works, the scorer is down.\<close>

definition down_env :: env where
  "down_env = null_env\<lparr>serper := (\<lambda>k q n. Some [acme])\<rparr>"

text \<open>A scorer that answers for index 0 and index 1 on attempt 0, and for index 0 only on
  later attempts.\<close>

definition judgments :: "json list" where
  "judgments =
     [JObj [(''index'', JNum 0), (''is_relevant'', JBool True), (''confidence'', JNum (9 / 10)),
            (''reason'', JStr ''match'')],
      JObj [(''index'', JNum 1), (''is_relevant'', JBool False), (''confidence'', JNum (8 / 10)),
            (''reason'', JStr ''other'')]]"

definition dup_env :: env where
  "dup_env =
     null_env\<lparr>llm_relevance := (\<lambda>k q s. if k = 0 then Some judgments else Some (take 1 judgments))\<rparr>"

text \<open>A clock that stands still.\<close>

definition fixed_clock :: "nat \<Rightarrow> string" where
  "fixed_clock i = ''2025-01-01T00:00:00''"

text \<open>The search always finds \<open>acme\<close> and the scorer returns an empty array, so no
  result is ever judged relevant.\<close>

definition low_env :: env where
  "low_env = null_env\<lparr>serper := (\<lambda>k q n. Some [acme]), llm_relevance := (\<lambda>k q s. Some [])\<rparr>"

text \<open>The same, but the search API fails on every attempt after the first.\<close>

definition flaky_env :: env where
  "flaky_env =
     null_env\<lparr>serper := (\<lambda>k q n. if k = 0 then Some [acme] else None),
              llm_relevance := (\<lambda>k q s. Some [])\<rparr>"

text \<open>Three results of which the scorer judges the first and the third relevant.\<close>

definition bolt :: search_result where
  "bolt = \<lparr>title = Some ''Bolt'', snippet = Some ''Bikes'', link = Some ''https://bolt.example''\<rparr>"

definition core :: search_result where
  "core = \<lparr>title = Some ''Core'', snippet = None, link = Some ''https://core.example''\<rparr>"

definition mixed_judgments :: "json list" where
  "mixed_judgments =
     [JObj [(''index'', JNum 0), (''is_relevant'', JBool True), (''confidence'', JNum (7 / 10)),
            (''reason'', JStr ''crm vendor'')],
      JObj [(''index'', JNum 1), (''is_relevant'', JBool False), (''confidence'', JNum (9 / 10)),
            (''reason'', JStr ''bicycles'')],
      JObj [(''index'', JNum 2), (''is_relevant'', JBool True), (''confidence'', JNum (95 / 100)),
            (''reason'', JStr ''crm platform'')]]"

definition mixed_env :: env where
  "mixed_env =
     null_env\<lparr>serper := (\<lambda>k q n. Some [acme, bolt, core]),
              llm_relevance := (\<lambda>k q s. Some mixed_judgments)\<rparr>"

definition acme_judged :: judged where
  "acme_judged =
     \<lparr>res = acme, is_relevant = JBool True, relevance_confidence = JNum (7 / 10),
      relevance_reason = JStr ''crm vendor''\<rparr>"

definition bolt_judged :: judged where
  "bolt_judged =
     \<lparr>res = bolt, is_relevant = JBool False, relevance_confidence = JNum (9 / 10),
      relevance_reason = JStr ''bicycles''\<rparr>"

definition core_judged :: judged where
  "core_judged =
     \<lparr>res = core, is_relevant = JBool True, relevance_confidence = JNum (95 / 100),
      relevance_reason = JStr ''crm platform''\<rparr>"

text \<open>Every page the browser loads is blank.\<close>

definition blank_env :: env where
  "blank_env = null_env\<lparr>browser := (\<lambda>i u. Some [])\<rparr>"

text \<open>
  A world in which everything works for the first candidate: the search finds \<open>acme\<close>, the
  scorer judges it relevant, the browser loads a page for the candidate in position 1
  (and fails for every other position), and the model replies to the extraction prompt
  with \<open>{"company_name": "Acme Inc", "email": null}\<close>. \<open>acme_lead now\<close> is the record the
  controller then builds at clock reading \<open>now\<close>.
\<close>

definition site_env :: env where
  "site_env =
     null_env\<lparr>serper := (\<lambda>k q n. Some [acme]),
              llm_relevance := (\<lambda>k q s. Some (take 1 judgments)),
              browser := (\<lambda>i u. if i = 1 then Some ''Acme sells CRM'' else None),
              llm_extract := (\<lambda>i c u. Some [(''company_name'', JStr ''Acme Inc''), (''email'', JNull)])\<rparr>"

definition acme_lead :: "string \<Rightarrow> dict" where
  "acme_lead now =
     [(''company_name'', JStr ''Acme Inc''), (''email'', JNull),
      (''search_title'', JStr ''Acme''), (''search_snippet'', JStr ''CRM''),
      (''is_relevant'', JBool True), (''relevance_confidence'', JNum (9 / 10)),
      (''relevance_reason'', JStr ''match''), (''scraped_at'', JStr now)]"

section \<open>Properties of \<open>evaluate_relevance\<close>\<close>

lemma relevance_rate_default:
  "rs \<noteq> [] \<Longrightarrow>
   relevance_rate (filter (\<lambda>r. truthy (is_relevant r)) (map default_relevance rs))
     (map default_relevance rs) = 1"
  by (simp add: relevance_rate_def default_relevance_def filter_map o_def)

lemma filter_default_relevance:
  "filter (\<lambda>r. truthy (is_relevant r)) (map default_relevance rs) = map default_relevance rs"
  by (simp add: default_relevance_def filter_map o_def)

text \<open>
  C5. When the relevance scorer fails, \<open>evaluate_relevance\<close> returns every result of the
  batch marked relevant with confidence 0.5 (\<open>default_relevance\<close>), and the controller goes
  on: with a threshold of at most 1 (the default is 0.6) the attempt in which the scorer
  failed accepts the whole batch after one search and one judging call.
\<close>

theorem scorer_failure_fails_open:
  assumes "scorer_fails e k search_results search_query"
  shows "evaluate_relevance e k search_results search_query = map default_relevance search_results
    \<and> (int k < max_retries cfg \<and> relevance_threshold cfg \<le> 1 \<and> search_results \<noteq> []
         \<and> search_companies e k current_query (num_results * 2) = search_results
       \<longrightarrow> search_loop e cfg search_query num_results current_query k
           = (Accepted (map default_relevance search_results) (map default_relevance search_results),
              [SearchCall current_query (num_results * 2), JudgeCall search_results search_query]))"
proof -
  have ev: "evaluate_relevance e k search_results search_query = map default_relevance search_results"
    using assms by (auto simp: scorer_fails_def evaluate_relevance_def split: option.splits)
  show ?thesis
  proof (intro conjI impI)
    show "evaluate_relevance e k search_results search_query = map default_relevance search_results"
      by (rule ev)
  next
    assume "int k < max_retries cfg \<and> relevance_threshold cfg \<le> 1 \<and> search_results \<noteq> []
         \<and> search_companies e k current_query (num_results * 2) = search_results"
    then have k: "int k < max_retries cfg" and t: "relevance_threshold cfg \<le> 1"
      and n: "search_results \<noteq> []"
      and s: "search_companies e k current_query (num_results * 2) = search_results"
      by simp_all
    have rate: "relevance_rate (map default_relevance search_results)
                  (map default_relevance search_results) = 1"
      using relevance_rate_default [OF n] by (simp add: filter_default_relevance)
    show "search_loop e cfg search_query num_results current_query k
           = (Accepted (map default_relevance search_results) (map default_relevance search_results),
              [SearchCall current_query (num_results * 2), JudgeCall search_results search_query])"
      by (subst search_loop.simps)
         (simp add: k t n s ev Let_def filter_default_relevance rate)
  qed
qed

theorem scorer_failure_fails_open_witness:
  "scorer_fails down_env 0 [acme] ''crm''
   \<and> evaluate_relevance down_env 0 [acme] ''crm''
       = [\<lparr>res = acme, is_relevant = JBool True, relevance_confidence = JNum (1 / 2),
           relevance_reason = JStr ''Could not evaluate''\<rparr>]
   \<and> search_loop down_env default_config ''crm'' 1 ''crm'' 0
       = (Accepted [default_relevance acme] [default_relevance acme],
          [SearchCall ''crm'' 2, JudgeCall [acme] ''crm''])"
proof -
  have f: "scorer_fails down_env 0 [acme] ''crm''"
    by (simp add: scorer_fails_def down_env_def null_env_def)
  have s: "search_companies down_env 0 ''crm'' (1 * 2) = [acme]"
    by (simp add: search_companies_def down_env_def null_env_def)
  show ?thesis
    using f s scorer_failure_fails_open [OF f, of default_config "''crm''" 1]
    by (simp add: default_config_def default_relevance_def acme_def)
qed

text \<open>Whatever the scorer answers, there is one judged result per input result, in the
  input order.\<close>

lemma enhance_res: "enhance rs data r = Some j \<Longrightarrow> res j = r"
  by (auto simp: enhance_def unmatched_def split: option.splits if_splits)

lemma those_map_Some:
  "those (map f xs) = Some ys \<Longrightarrow>
   length ys = length xs \<and> (\<forall>i<length xs. f (xs ! i) = Some (ys ! i))"
proof (induction xs arbitrary: ys)
  case Nil
  then show ?case by simp
next
  case (Cons x xs)
  then obtain y ys' where "f x = Some y" "those (map f xs) = Some ys'" "ys = y # ys'"
    by (auto split: option.splits)
  with Cons.IH [of ys'] show ?case
    by (auto simp: nth_Cons split: nat.splits)
qed

lemma evaluate_relevance_res: "map res (evaluate_relevance e k rs q) = rs"
proof (cases "scorer_fails e k rs q")
  case True
  then have "evaluate_relevance e k rs q = map default_relevance rs"
    by (auto simp: scorer_fails_def evaluate_relevance_def split: option.splits)
  then show ?thesis
    by (simp add: default_relevance_def o_def)
next
  case False
  then obtain data ys where d: "llm_relevance e k q (results_summary rs) = Some data"
    and y: "those (map (enhance rs data) rs) = Some ys"
    by (auto simp: scorer_fails_def split: option.splits)
  then have ev: "evaluate_relevance e k rs q = ys"
    by (simp add: evaluate_relevance_def)
  from those_map_Some [OF y] have "length ys = length rs" "\<forall>i<length rs. res (ys ! i) = rs ! i"
    using enhance_res by auto
  then show ?thesis
    unfolding ev by (simp add: list_eq_iff_nth_eq)
qed

lemma evaluate_relevance_length: "length (evaluate_relevance e k rs q) = length rs"
  using evaluate_relevance_res [of e k rs q] by (metis length_map)

text \<open>\<open>search_results.index(result)\<close> is the position of \<open>result\<close> when the results are
  pairwise different.\<close>

lemma index_of_distinct: "distinct xs \<Longrightarrow> i < length xs \<Longrightarrow> index_of xs (xs ! i) = Some i"
proof (induction xs arbitrary: i)
  case Nil
  then show ?case by simp
next
  case (Cons x xs)
  then show ?case by (cases i) auto
qed

text \<open>
  C6. Relevance evaluation is meant to give each input result the judgment whose \<open>index\<close>
  is its position, and the default judgment (not relevant, confidence 0.0) when no
  judgment has that index. The matching loop compares the judgment's index with
  \<open>search_results.index(result)\<close>, the position of the first result equal to \<open>result\<close>. For
  the batch \<open>[acme, acme]\<close> both results therefore receive the judgment of index 0: on
  attempt 0 the scorer judged index 1 not relevant with confidence 0.8, on attempt 1 it
  gave no judgment for index 1, and in both runs the second result comes out relevant
  with confidence 0.9.
\<close>

theorem duplicate_results_share_first_judgment:
  "evaluate_relevance dup_env 0 [acme, acme] ''crm'' = [acme_relevant, acme_relevant]
   \<and> evaluate_relevance dup_env 1 [acme, acme] ''crm'' = [acme_relevant, acme_relevant]"
  by (simp add: evaluate_relevance_def dup_env_def null_env_def judgments_def enhance_def
        dict_get_def acme_relevant_def)

section \<open>Properties of the search loop\<close>

lemma attempt_query_Suc:
  "attempt_query e sq n (Suc k) = refine_search_query e k sq (attempt_judged e sq n k)"
  by (simp add: attempt_judged_def attempt_results_def)

lemma loop_step_refine:
  assumes "int k < max_retries cfg - 1"
    and "attempt_results e sq n k \<noteq> []"
    and "low_relevance cfg (attempt_judged e sq n k)"
  shows "search_loop e cfg sq n (attempt_query e sq n k) k =
           (fst (search_loop e cfg sq n (attempt_query e sq n (Suc k)) (Suc k)),
            refined_attempt e sq n k @ snd (search_loop e cfg sq n (attempt_query e sq n (Suc k)) (Suc k)))"
proof -
  have k: "int k < max_retries cfg" using assms(1) by simp
  have r: "search_companies e k (attempt_query e sq n k) (n * 2) = attempt_results e sq n k"
    by (simp add: attempt_results_def)
  have j: "evaluate_relevance e k (attempt_results e sq n k) sq = attempt_judged e sq n k"
    by (simp add: attempt_judged_def)
  have l: "\<not> relevance_threshold cfg \<le> relevance_rate (filter (\<lambda>r. truthy (is_relevant r)) (attempt_judged e sq n k)) (attempt_judged e sq n k)"
    using assms(3) by (simp add: low_relevance_def relevant_of_def)
  show ?thesis
    by (subst search_loop.simps)
       (simp add: k r j l assms(1,2) Let_def attempt_query_Suc refined_attempt_def split: prod.splits)
qed

lemma loop_step_empty:
  assumes "int k < max_retries cfg" and "search_companies e k cq (n * 2) = []"
  shows "search_loop e cfg sq n cq k = (NoResults, [SearchCall cq (n * 2)])"
  by (subst search_loop.simps) (simp add: assms Let_def)

lemma loop_step_exhausted:
  assumes "int k < max_retries cfg" and "\<not> int k < max_retries cfg - 1"
    and "attempt_results e sq n k \<noteq> []"
    and "low_relevance cfg (attempt_judged e sq n k)"
  shows "search_loop e cfg sq n (attempt_query e sq n k) k =
           (Accepted (relevant_of (attempt_judged e sq n k)) (attempt_judged e sq n k),
            [SearchCall (attempt_query e sq n k) (n * 2), JudgeCall (attempt_results e sq n k) sq])"
proof -
  have r: "search_companies e k (attempt_query e sq n k) (n * 2) = attempt_results e sq n k"
    by (simp add: attempt_results_def)
  have j: "evaluate_relevance e k (attempt_results e sq n k) sq = attempt_judged e sq n k"
    by (simp add: attempt_judged_def)
  have l: "\<not> relevance_threshold cfg \<le> relevance_rate (filter (\<lambda>r. truthy (is_relevant r)) (attempt_judged e sq n k)) (attempt_judged e sq n k)"
    using assms(4) by (simp add: low_relevance_def relevant_of_def)
  show ?thesis
    by (subst search_loop.simps)
       (simp add: r j l assms(1,2,3) Let_def relevant_of_def)
qed

lemma loop_prefix:
  assumes "int k < max_retries cfg"
    and "\<forall>i<k. attempt_results e sq n i \<noteq> [] \<and> low_relevance cfg (attempt_judged e sq n i)"
    and "j \<le> k"
  shows "search_loop e cfg sq n (attempt_query e sq n j) j =
           (fst (search_loop e cfg sq n (attempt_query e sq n k) k),
            concat (map (refined_attempt e sq n) [j..<k])
              @ snd (search_loop e cfg sq n (attempt_query e sq n k) k))"
  using assms(3)
proof (induction "k - j" arbitrary: j)
  case 0
  then have "j = k" by simp
  then show ?case by simp
next
  case (Suc d)
  then have jk: "j < k" and d: "d = k - Suc j" and le: "Suc j \<le> k" by simp_all
  have "int j < max_retries cfg - 1" using jk assms(1) by simp
  moreover have "attempt_results e sq n j \<noteq> []" "low_relevance cfg (attempt_judged e sq n j)"
    using assms(2) jk by simp_all
  ultimately have step: "search_loop e cfg sq n (attempt_query e sq n j) j =
           (fst (search_loop e cfg sq n (attempt_query e sq n (Suc j)) (Suc j)),
            refined_attempt e sq n j @ snd (search_loop e cfg sq n (attempt_query e sq n (Suc j)) (Suc j)))"
    by (rule loop_step_refine)
  have up: "[j..<k] = j # [Suc j..<k]" using jk by (simp add: upt_conv_Cons)
  show ?case
    unfolding step Suc.hyps(1) [OF d le] up by simp
qed

lemma search_loop_unfold:
  "search_loop e cfg sq n cq k =
     (let rs = search_companies e k cq (n * 2);
          js = evaluate_relevance e k rs sq
      in if \<not> int k < max_retries cfg then (NotEntered, [])
         else if rs = [] then (NoResults, [SearchCall cq (n * 2)])
         else if relevance_threshold cfg \<le> relevance_rate (relevant_of js) js
                 \<or> \<not> int k < max_retries cfg - 1
         then (Accepted (relevant_of js) js, [SearchCall cq (n * 2), JudgeCall rs sq])
         else (fst (search_loop e cfg sq n (refine_search_query e k sq js) (Suc k)),
               SearchCall cq (n * 2) # JudgeCall rs sq # RefineCall sq js
                 # snd (search_loop e cfg sq n (refine_search_query e k sq js) (Suc k))))"
  by (subst search_loop.simps) (simp add: Let_def relevant_of_def split: prod.splits)

lemma search_loop_cases:
  obtains
    (NotEntered) "\<not> int k < max_retries cfg"
      "search_loop e cfg sq n cq k = (NotEntered, [])"
  | (NoResults) "int k < max_retries cfg" "search_companies e k cq (n * 2) = []"
      "search_loop e cfg sq n cq k = (NoResults, [SearchCall cq (n * 2)])"
  | (Accepted) rs js where "int k < max_retries cfg"
      "rs = search_companies e k cq (n * 2)" "rs \<noteq> []" "js = evaluate_relevance e k rs sq"
      "search_loop e cfg sq n cq k
         = (Accepted (relevant_of js) js, [SearchCall cq (n * 2), JudgeCall rs sq])"
  | (Refined) rs js cq' where "int k < max_retries cfg - 1"
      "rs = search_companies e k cq (n * 2)" "js = evaluate_relevance e k rs sq"
      "cq' = refine_search_query e k sq js"
      "search_loop e cfg sq n cq k
         = (fst (search_loop e cfg sq n cq' (Suc k)),
            SearchCall cq (n * 2) # JudgeCall rs sq # RefineCall sq js
              # snd (search_loop e cfg sq n cq' (Suc k)))"
proof -
  define rs where "rs = search_companies e k cq (n * 2)"
  define js where "js = evaluate_relevance e k rs sq"
  note u = search_loop_unfold [of e cfg sq n cq k, unfolded Let_def,
      folded rs_def, folded js_def]
  consider "\<not> int k < max_retries cfg"
    | "int k < max_retries cfg" "rs = []"
    | "int k < max_retries cfg" "rs \<noteq> []"
      "relevance_threshold cfg \<le> relevance_rate (relevant_of js) js
         \<or> \<not> int k < max_retries cfg - 1"
    | "int k < max_retries cfg" "rs \<noteq> []"
      "\<not> (relevance_threshold cfg \<le> relevance_rate (relevant_of js) js
         \<or> \<not> int k < max_retries cfg - 1)"
    by blast
  then show thesis
  proof cases
    case 1
    with u have "search_loop e cfg sq n cq k = (NotEntered, [])" by simp
    with 1 show ?thesis by (rule NotEntered)
  next
    case 2
    with u have "search_loop e cfg sq n cq k = (NoResults, [SearchCall cq (n * 2)])" by simp
    with 2 show ?thesis unfolding rs_def by (rule NoResults)
  next
    case 3
    with u have "search_loop e cfg sq n cq k
         = (Accepted (relevant_of js) js, [SearchCall cq (n * 2), JudgeCall rs sq])"
      by simp
    with 3 show ?thesis using rs_def js_def by (intro Accepted [of rs js]) simp_all
  next
    case 4
    with u have "search_loop e cfg sq n cq k
         = (fst (search_loop e cfg sq n (refine_search_query e k sq js) (Suc k)),
            SearchCall cq (n * 2) # JudgeCall rs sq # RefineCall sq js
              # snd (search_loop e cfg sq n (refine_search_query e k sq js) (Suc k)))"
      by simp
    with 4 show ?thesis using rs_def js_def
      by (intro Refined [of rs js "refine_search_query e k sq js"]) simp_all
  qed
qed

lemma loop_bounds:
  "length (filter is_search (snd (search_loop e cfg sq n cq k))) \<le> nat (max_retries cfg) - k
   \<and> length (filter is_judge (snd (search_loop e cfg sq n cq k)))
       \<le> length (filter is_search (snd (search_loop e cfg sq n cq k)))
   \<and> length (filter is_refine (snd (search_loop e cfg sq n cq k)))
       \<le> length (filter is_judge (snd (search_loop e cfg sq n cq k)))"
proof (induction "nat (max_retries cfg) - k" arbitrary: k cq)
  case 0
  then have "\<not> int k < max_retries cfg" by linarith
  then show ?case
    by (cases rule: search_loop_cases [of k cfg e sq n cq]) simp_all
next
  case (Suc d)
  then have d: "d = nat (max_retries cfg) - Suc k" and k: "int k < max_retries cfg"
    by linarith+
  from k have pos: "Suc 0 \<le> nat (max_retries cfg) - k" by linarith
  show ?case
  proof (cases rule: search_loop_cases [of k cfg e sq n cq])
    case NotEntered
    then show ?thesis by simp
  next
    case NoResults
    then show ?thesis using pos by simp
  next
    case (Accepted rs js)
    then show ?thesis using pos by simp
  next
    case (Refined rs js cq')
    have "Suc (nat (max_retries cfg) - Suc k) = nat (max_retries cfg) - k"
      using k by linarith
    then show ?thesis
      using Suc.hyps(1) [OF d, of cq'] unfolding Refined(5) by auto
  qed
qed

lemma loop_search_counts:
  "List.map_filter search_count (snd (search_loop e cfg sq n cq k))
     = replicate (length (filter is_search (snd (search_loop e cfg sq n cq k)))) (n * 2)"
proof (induction "nat (max_retries cfg) - k" arbitrary: k cq)
  case 0
  then have "\<not> int k < max_retries cfg" by linarith
  then show ?case
    by (cases rule: search_loop_cases [of k cfg e sq n cq]) (simp_all add: map_filter_simps)
next
  case (Suc d)
  then have d: "d = nat (max_retries cfg) - Suc k" by linarith
  show ?case
  proof (cases rule: search_loop_cases [of k cfg e sq n cq])
    case (Refined rs js cq')
    show ?thesis
      using Suc.hyps(1) [OF d, of cq'] unfolding Refined(5) by (simp add: map_filter_simps)
  qed (simp_all add: map_filter_simps)
qed

lemma loop_accepted:
  "fst (search_loop e cfg sq n cq k) = Accepted relevant evaluated \<Longrightarrow>
   relevant = relevant_of evaluated
   \<and> (\<exists>j q. search_companies e j q (n * 2) \<noteq> []
          \<and> evaluated = evaluate_relevance e j (search_companies e j q (n * 2)) sq)"
proof (induction "nat (max_retries cfg) - k" arbitrary: k cq)
  case 0
  then have "\<not> int k < max_retries cfg" by linarith
  then show ?case using 0(2)
    by (cases rule: search_loop_cases [of k cfg e sq n cq]) simp_all
next
  case (Suc d)
  then have d: "d = nat (max_retries cfg) - Suc k" by linarith
  show ?case
  proof (cases rule: search_loop_cases [of k cfg e sq n cq])
    case NotEntered
    with Suc.prems show ?thesis by simp
  next
    case NoResults
    with Suc.prems show ?thesis by simp
  next
    case (Accepted rs js)
    with Suc.prems have "relevant = relevant_of js" "evaluated = js" by auto
    with Accepted show ?thesis by blast
  next
    case (Refined rs js cq')
    with Suc.prems have "fst (search_loop e cfg sq n cq' (Suc k)) = Accepted relevant evaluated"
      by simp
    then show ?thesis by (rule Suc.hyps(1) [OF d])
  qed
qed

lemma process_candidate_calls:
  "list_all is_candidate_call (snd (process_candidate e clock i result))"
  by (simp add: process_candidate_def Let_def split: option.splits)

lemma collect_leads_calls:
  "list_all is_candidate_call (snd (collect_leads e clock i results))"
proof (induction results arbitrary: i)
  case Nil
  then show ?case by simp
next
  case (Cons r rs)
  show ?case
    using process_candidate_calls [of e clock i r] Cons.IH [of "Suc i"]
    by (auto split: prod.splits sum.splits)
qed

lemma no_loop_calls:
  "list_all is_candidate_call evs \<Longrightarrow>
   filter is_search evs = [] \<and> filter is_judge evs = [] \<and> filter is_refine evs = []
   \<and> List.map_filter search_count evs = []"
proof (induction evs)
  case Nil
  then show ?case by (simp add: map_filter_simps)
next
  case (Cons ev evs)
  then show ?case by (cases ev) (simp_all add: map_filter_simps)
qed

lemma leads_from_trace:
  "\<exists>tl. snd (leads_from e clock cfg sq n cq k) = snd (search_loop e cfg sq n cq k) @ tl
        \<and> list_all is_candidate_call tl"
proof (cases "search_loop e cfg sq n cq k")
  case (Pair exit evs)
  show ?thesis
  proof (cases exit)
    case NoResults
    with Pair show ?thesis by (simp add: leads_from_def)
  next
    case NotEntered
    with Pair show ?thesis by (simp add: leads_from_def)
  next
    case (Accepted rel ev)
    show ?thesis
      using collect_leads_calls [of e clock 1 "final_results n rel ev"] Pair Accepted
      by (auto simp: leads_from_def Let_def split: prod.splits sum.splits)
  qed
qed

lemma generate_trace:
  "snd (generate_leads_dataframe e clock cfg sq n) = snd (leads_from e clock cfg sq n sq 0)"
  by (simp add: generate_leads_dataframe_def split: prod.splits sum.splits)

lemma count_refined_attempts:
  "length (filter is_search (concat (map (refined_attempt e sq n) ks))) = length ks
   \<and> length (filter is_judge (concat (map (refined_attempt e sq n) ks))) = length ks
   \<and> length (filter is_refine (concat (map (refined_attempt e sq n) ks))) = length ks"
  by (induction ks) (simp_all add: refined_attempt_def)

text \<open>
  C1. No run makes more than \<open>max_retries\<close> calls to \<open>search_companies\<close> or to
  \<open>evaluate_relevance\<close>. In a run in which every attempt finds results and judges them
  below the threshold, the controller makes exactly \<open>max_retries\<close> search calls,
  \<open>max_retries\<close> judging calls and \<open>max_retries - 1\<close> refinement calls, and leaves the
  loop with the batch of the last attempt accepted.
\<close>

theorem low_relevance_exhausts_retries:
  "length (filter is_search (snd (generate_leads_dataframe e clock cfg sq n)))
     \<le> nat (max_retries cfg)
   \<and> length (filter is_judge (snd (generate_leads_dataframe e clock cfg sq n)))
       \<le> nat (max_retries cfg)
   \<and> (0 < max_retries cfg
        \<and> (\<forall>i<nat (max_retries cfg).
              attempt_results e sq n i \<noteq> [] \<and> low_relevance cfg (attempt_judged e sq n i))
      \<longrightarrow> length (filter is_search (snd (generate_leads_dataframe e clock cfg sq n)))
            = nat (max_retries cfg)
          \<and> length (filter is_judge (snd (generate_leads_dataframe e clock cfg sq n)))
              = nat (max_retries cfg)
          \<and> length (filter is_refine (snd (generate_leads_dataframe e clock cfg sq n)))
              = nat (max_retries cfg) - 1
          \<and> search_loop e cfg sq n sq 0
              = (Accepted (relevant_of (attempt_judged e sq n (nat (max_retries cfg) - 1)))
                   (attempt_judged e sq n (nat (max_retries cfg) - 1)),
                 concat (map (refined_attempt e sq n) [0..<nat (max_retries cfg) - 1])
                   @ [SearchCall (attempt_query e sq n (nat (max_retries cfg) - 1)) (n * 2),
                      JudgeCall (attempt_results e sq n (nat (max_retries cfg) - 1)) sq]))"
proof -
  define T where "T = snd (generate_leads_dataframe e clock cfg sq n)"
  define L where "L = snd (search_loop e cfg sq n sq 0)"
  obtain tl where tl: "T = L @ tl" "list_all is_candidate_call tl"
    using leads_from_trace [of e clock cfg sq n sq 0] unfolding T_def L_def generate_trace
    by blast
  note z = no_loop_calls [OF tl(2)]
  have cs: "length (filter is_search T) = length (filter is_search L)"
    and cj: "length (filter is_judge T) = length (filter is_judge L)"
    and cr: "length (filter is_refine T) = length (filter is_refine L)"
    using z by (simp_all add: tl(1))
  have b: "length (filter is_search L) \<le> nat (max_retries cfg)"
    "length (filter is_judge L) \<le> length (filter is_search L)"
    using loop_bounds [of e cfg sq n sq 0] unfolding L_def by simp_all
  have bound: "length (filter is_search T) \<le> nat (max_retries cfg)"
    "length (filter is_judge T) \<le> nat (max_retries cfg)"
    using b cs cj by simp_all
  have exact: "length (filter is_search T) = nat (max_retries cfg)
          \<and> length (filter is_judge T) = nat (max_retries cfg)
          \<and> length (filter is_refine T) = nat (max_retries cfg) - 1
          \<and> search_loop e cfg sq n sq 0
              = (Accepted (relevant_of (attempt_judged e sq n (nat (max_retries cfg) - 1)))
                   (attempt_judged e sq n (nat (max_retries cfg) - 1)),
                 concat (map (refined_attempt e sq n) [0..<nat (max_retries cfg) - 1])
                   @ [SearchCall (attempt_query e sq n (nat (max_retries cfg) - 1)) (n * 2),
                      JudgeCall (attempt_results e sq n (nat (max_retries cfg) - 1)) sq])"
    if h: "0 < max_retries cfg
        \<and> (\<forall>i<nat (max_retries cfg).
              attempt_results e sq n i \<noteq> [] \<and> low_relevance cfg (attempt_judged e sq n i))"
  proof -
    define m where "m = nat (max_retries cfg) - 1"
    from h have pos: "0 < max_retries cfg" by simp
    have m: "int m < max_retries cfg" "\<not> int m < max_retries cfg - 1"
      "nat (max_retries cfg) = Suc m"
      using pos unfolding m_def by linarith+
    have low: "\<forall>i<m. attempt_results e sq n i \<noteq> [] \<and> low_relevance cfg (attempt_judged e sq n i)"
      using h m(3) by simp
    have last: "attempt_results e sq n m \<noteq> []" "low_relevance cfg (attempt_judged e sq n m)"
      using h m(3) by simp_all
    have pre: "search_loop e cfg sq n (attempt_query e sq n 0) 0 =
           (fst (search_loop e cfg sq n (attempt_query e sq n m) m),
            concat (map (refined_attempt e sq n) [0..<m])
              @ snd (search_loop e cfg sq n (attempt_query e sq n m) m))"
      by (rule loop_prefix [OF m(1) low]) simp
    have fin: "search_loop e cfg sq n (attempt_query e sq n m) m =
           (Accepted (relevant_of (attempt_judged e sq n m)) (attempt_judged e sq n m),
            [SearchCall (attempt_query e sq n m) (n * 2), JudgeCall (attempt_results e sq n m) sq])"
      by (rule loop_step_exhausted [OF m(1,2) last])
    have loop: "search_loop e cfg sq n sq 0
              = (Accepted (relevant_of (attempt_judged e sq n m)) (attempt_judged e sq n m),
                 concat (map (refined_attempt e sq n) [0..<m])
                   @ [SearchCall (attempt_query e sq n m) (n * 2),
                      JudgeCall (attempt_results e sq n m) sq])"
      using pre unfolding fin by simp
    have L: "L = concat (map (refined_attempt e sq n) [0..<m])
                   @ [SearchCall (attempt_query e sq n m) (n * 2),
                      JudgeCall (attempt_results e sq n m) sq]"
      unfolding L_def loop by simp
    have "length (filter is_search L) = Suc m" "length (filter is_judge L) = Suc m"
      "length (filter is_refine L) = m"
      unfolding L using count_refined_attempts [of e sq n "[0..<m]"] by simp_all
    then show ?thesis
      using loop cs cj cr m(3) unfolding m_def [symmetric] by simp
  qed
  show ?thesis
    using bound exact unfolding T_def by blast
qed

lemma low_env_attempts:
  "attempt_results low_env ''crm'' 1 i = [acme]"
  "attempt_judged low_env ''crm'' 1 i = [unmatched acme]"
  "low_relevance default_config [unmatched acme]"
  by (simp_all add: attempt_results_def attempt_judged_def search_companies_def low_env_def
        null_env_def evaluate_relevance_def enhance_def low_relevance_def relevant_of_def
        relevance_rate_def unmatched_def default_config_def)

theorem low_relevance_exhausts_retries_witness:
  "length (filter is_search (snd (generate_leads_dataframe low_env fixed_clock default_config ''crm'' 1))) = 3
   \<and> length (filter is_judge (snd (generate_leads_dataframe low_env fixed_clock default_config ''crm'' 1))) = 3
   \<and> length (filter is_refine (snd (generate_leads_dataframe low_env fixed_clock default_config ''crm'' 1))) = 2
   \<and> fst (search_loop low_env default_config ''crm'' 1 ''crm'' 0) = Accepted [] [unmatched acme]"
proof -
  have m: "nat (max_retries default_config) = 3" "0 < max_retries default_config"
    by (simp_all add: default_config_def)
  have h: "0 < max_retries default_config
        \<and> (\<forall>i<nat (max_retries default_config).
              attempt_results low_env ''crm'' 1 i \<noteq> []
              \<and> low_relevance default_config (attempt_judged low_env ''crm'' 1 i))"
    using low_env_attempts m by simp
  have r: "relevant_of [unmatched acme] = []"
    by (simp add: relevant_of_def unmatched_def)
  show ?thesis
    using low_relevance_exhausts_retries [of low_env fixed_clock default_config "''crm''" 1] h
    by (simp add: m low_env_attempts r)
qed

lemma map_filter_app: "List.map_filter f (xs @ ys) = List.map_filter f xs @ List.map_filter f ys"
  by (simp add: map_filter_def)

text \<open>
  C2. In every run, each call the controller makes to \<open>search_companies\<close> asks for
  \<open>num_results * 2\<close> results: the list of the counts of the search calls of a run consists
  of that number only. (\<open>search_companies\<close> doubles the count it is given once more in the
  body of its request, so the search API itself is asked for \<open>num_results * 4\<close>:
  \<open>search_companies_def\<close>.)
\<close>

theorem every_search_asks_twice_the_target:
  "List.map_filter search_count (snd (generate_leads_dataframe e clock cfg sq n))
     = replicate (length (filter is_search (snd (generate_leads_dataframe e clock cfg sq n))))
         (n * 2)"
proof -
  obtain tl where tl: "snd (generate_leads_dataframe e clock cfg sq n)
        = snd (search_loop e cfg sq n sq 0) @ tl" "list_all is_candidate_call tl"
    using leads_from_trace [of e clock cfg sq n sq 0] unfolding generate_trace by blast
  note z = no_loop_calls [OF tl(2)]
  show ?thesis
    unfolding tl(1) using z loop_search_counts [of e cfg sq n sq 0]
    by (simp add: map_filter_app)
qed

text \<open>
  C3. If attempt \<open>k\<close> of a run (the attempts before it having found results, judged them
  below the threshold and refined the query) gets no result from \<open>search_companies\<close>, the
  controller returns the empty data frame, and that search is its last call: the calls of
  the run are those of the earlier attempts followed by the search of attempt \<open>k\<close>, with
  no judging, refinement, fetch or extraction after it.
\<close>

theorem empty_search_ends_run:
  assumes "int k < max_retries cfg"
    and "\<forall>i<k. attempt_results e sq n i \<noteq> [] \<and> low_relevance cfg (attempt_judged e sq n i)"
    and "attempt_results e sq n k = []"
  shows "generate_leads_dataframe e clock cfg sq n
           = (Inr empty_dataframe,
              concat (map (refined_attempt e sq n) [0..<k])
                @ [SearchCall (attempt_query e sq n k) (n * 2)])"
proof -
  have pre: "search_loop e cfg sq n (attempt_query e sq n 0) 0 =
           (fst (search_loop e cfg sq n (attempt_query e sq n k) k),
            concat (map (refined_attempt e sq n) [0..<k])
              @ snd (search_loop e cfg sq n (attempt_query e sq n k) k))"
    by (rule loop_prefix [OF assms(1,2)]) simp
  have "search_companies e k (attempt_query e sq n k) (n * 2) = []"
    using assms(3) by (simp add: attempt_results_def)
  then have fin: "search_loop e cfg sq n (attempt_query e sq n k) k
      = (NoResults, [SearchCall (attempt_query e sq n k) (n * 2)])"
    by (rule loop_step_empty [OF assms(1)])
  have "search_loop e cfg sq n sq 0
      = (NoResults, concat (map (refined_attempt e sq n) [0..<k])
                @ [SearchCall (attempt_query e sq n k) (n * 2)])"
    using pre unfolding fin by simp
  then show ?thesis
    by (simp add: generate_leads_dataframe_def leads_from_def finish_def)
qed

theorem empty_search_ends_run_witness:
  "generate_leads_dataframe flaky_env fixed_clock default_config ''crm'' 1
     = (Inr empty_dataframe,
        [SearchCall ''crm'' 2, JudgeCall [acme] ''crm'', RefineCall ''crm'' [unmatched acme],
         SearchCall ''crm company contact information'' 2])"
proof -
  have a0: "attempt_results flaky_env ''crm'' 1 0 = [acme]"
    "attempt_judged flaky_env ''crm'' 1 0 = [unmatched acme]"
    by (simp_all add: attempt_results_def attempt_judged_def search_companies_def flaky_env_def
        null_env_def evaluate_relevance_def enhance_def)
  have low: "low_relevance default_config [unmatched acme]"
    by (simp add: low_relevance_def relevant_of_def relevance_rate_def unmatched_def
        default_config_def)
  have s0: "search_companies flaky_env 0 ''crm'' 2 = [acme]"
    "evaluate_relevance flaky_env 0 [acme] ''crm'' = [unmatched acme]"
    "refine_search_query flaky_env 0 ''crm'' [unmatched acme]
       = ''crm company contact information''"
    by (simp_all add: search_companies_def flaky_env_def null_env_def evaluate_relevance_def
        enhance_def refine_search_query_def)
  have a1: "attempt_results flaky_env ''crm'' 1 (Suc 0) = []"
    by (simp add: attempt_results_def search_companies_def flaky_env_def null_env_def)
  have k: "int (Suc 0) < max_retries default_config" by (simp add: default_config_def)
  have h: "\<forall>i<Suc 0. attempt_results flaky_env ''crm'' 1 i \<noteq> []
      \<and> low_relevance default_config (attempt_judged flaky_env ''crm'' 1 i)"
    using a0 low by simp
  show ?thesis
    using empty_search_ends_run [OF k h a1, of fixed_clock]
    by (simp add: refined_attempt_def a0 s0)
qed

section \<open>Properties of the selection\<close>

lemma subseq_take: "subseq (take m xs) xs"
  by (metis append_take_drop_id list_emb_append2 prefix_order.order_refl prefixI subseq_order.order_refl list_emb_prefix)

text \<open>
  C4. When the loop is left with a batch accepted and \<open>num_results\<close> is not negative, the
  candidates that are processed are the first \<open>num_results\<close> of the results judged relevant
  if there is one, and the first \<open>num_results\<close> of all judged results otherwise. Either way
  they are a subsequence of the judged batch, which carries the results in the order in
  which \<open>search_companies\<close> returned them: nothing is sorted.
\<close>

theorem selection_prefers_relevant_and_keeps_order:
  assumes "fst (search_loop e cfg sq n cq k) = Accepted relevant evaluated" and "0 \<le> n"
  shows "final_results n relevant evaluated
           = (if relevant_of evaluated \<noteq> [] then take (nat n) (relevant_of evaluated)
              else take (nat n) evaluated)
         \<and> subseq (final_results n relevant evaluated) evaluated
         \<and> (\<exists>j q. map res evaluated = search_companies e j q (n * 2))"
proof -
  from loop_accepted [OF assms(1)] obtain j q where
    r: "relevant = relevant_of evaluated"
    and ev: "evaluated = evaluate_relevance e j (search_companies e j q (n * 2)) sq"
    by blast
  have f: "final_results n relevant evaluated
           = (if relevant_of evaluated \<noteq> [] then take (nat n) (relevant_of evaluated)
              else take (nat n) evaluated)"
    using assms(2) by (simp add: final_results_def py_prefix_def r)
  have s1: "subseq (take (nat n) (relevant_of evaluated)) evaluated"
    by (rule subseq_order.order_trans [OF subseq_take]) (simp add: relevant_of_def)
  have s2: "subseq (take (nat n) evaluated) evaluated" by (rule subseq_take)
  have m: "map res evaluated = search_companies e j q (n * 2)"
    by (subst ev) (rule evaluate_relevance_res)
  show ?thesis using f s1 s2 m by auto
qed

lemma mixed_loop:
  "search_loop mixed_env default_config ''crm'' 1 ''crm'' 0
     = (Accepted [acme_judged, core_judged] [acme_judged, bolt_judged, core_judged],
        [SearchCall ''crm'' 2, JudgeCall [acme, bolt, core] ''crm''])"
  by (subst search_loop.simps)
     (simp add: mixed_env_def null_env_def default_config_def search_companies_def
        evaluate_relevance_def enhance_def mixed_judgments_def dict_get_def acme_def bolt_def
        core_def acme_judged_def bolt_judged_def core_judged_def relevance_rate_def Let_def)

theorem selection_prefers_relevant_and_keeps_order_witness:
  "fst (search_loop mixed_env default_config ''crm'' 1 ''crm'' 0)
     = Accepted [acme_judged, core_judged] [acme_judged, bolt_judged, core_judged]
   \<and> final_results 1 [acme_judged, core_judged] [acme_judged, bolt_judged, core_judged]
       = [acme_judged]
   \<and> subseq [acme_judged] [acme_judged, bolt_judged, core_judged]"
proof -
  have a: "fst (search_loop mixed_env default_config ''crm'' 1 ''crm'' 0)
     = Accepted [acme_judged, core_judged] [acme_judged, bolt_judged, core_judged]"
    by (simp add: mixed_loop)
  have r: "relevant_of [acme_judged, bolt_judged, core_judged] = [acme_judged, core_judged]"
    by (simp add: relevant_of_def acme_judged_def bolt_judged_def core_judged_def)
  show ?thesis
    using selection_prefers_relevant_and_keeps_order [OF a] a
    by (simp add: r)
qed

section \<open>Properties of the per-candidate loop\<close>

lemma collect_leads_skip:
  "process_candidate e clock i r = (Inr None, evs) \<Longrightarrow>
   collect_leads e clock i (r # rest)
     = (fst (collect_leads e clock (Suc i) rest), evs @ snd (collect_leads e clock (Suc i) rest))"
  by (simp split: prod.splits sum.splits)

text \<open>
  C10. A candidate whose page was fetched but whose cleaned text is the empty string is
  treated as a candidate whose fetch failed: \<open>extract_lead_info\<close> is not called, no record
  is appended, and the loop goes on with the next candidate. The calls and the result
  are those of the same candidate with the browser down.
\<close>

theorem empty_page_is_skipped:
  assumes "title (res r) = Some t" and "link (res r) = Some l"
    and "scrape_website e i l = Some []"
  shows "process_candidate e clock i r = (Inr None, [FetchCall l])
       \<and> process_candidate (e\<lparr>browser := (\<lambda>j u. None)\<rparr>) clock i r = (Inr None, [FetchCall l])
       \<and> collect_leads e clock i (r # rest)
           = (fst (collect_leads e clock (Suc i) rest),
              FetchCall l # snd (collect_leads e clock (Suc i) rest))"
proof -
  have p: "process_candidate e clock i r = (Inr None, [FetchCall l])"
    using assms by (simp add: process_candidate_def)
  have q: "process_candidate (e\<lparr>browser := (\<lambda>j u. None)\<rparr>) clock i r = (Inr None, [FetchCall l])"
    using assms(1,2) by (simp add: process_candidate_def scrape_website_def)
  show ?thesis using p q collect_leads_skip [OF p, of rest] by simp
qed

theorem empty_page_is_skipped_witness:
  "scrape_website blank_env 1 ''https://acme.example'' = Some []
   \<and> collect_leads blank_env fixed_clock 1 [acme_relevant]
       = (Inr [], [FetchCall ''https://acme.example''])"
proof -
  have s: "scrape_website blank_env 1 ''https://acme.example'' = Some []"
    by (simp add: scrape_website_def blank_env_def clean_html_content_def null_env_def)
  have t: "title (res acme_relevant) = Some ''Acme''" "link (res acme_relevant) = Some ''https://acme.example''"
    by (simp_all add: acme_relevant_def acme_def)
  show ?thesis
    using empty_page_is_skipped [OF t s, of fixed_clock "[]"] s by simp
qed

lemma create_fallback_lead_data_browser:
  "create_fallback_lead_data (e\<lparr>browser := f\<rparr>) l content = create_fallback_lead_data e l content"
  by (simp add: create_fallback_lead_data_def)

lemma extract_lead_info_browser:
  "extract_lead_info (e\<lparr>browser := f\<rparr>) i content l = extract_lead_info e i content l"
  by (simp add: extract_lead_info_def create_fallback_lead_data_browser cong: option.case_cong)

lemma clean_html_content_browser:
  "clean_html_content (e\<lparr>browser := f\<rparr>) html_content = clean_html_content e html_content"
  by (simp add: clean_html_content_def)

lemma scrape_website_other_browser:
  "j \<noteq> q \<Longrightarrow> scrape_website (e\<lparr>browser := (browser e)(q := b)\<rparr>) j l = scrape_website e j l"
  by (simp add: scrape_website_def clean_html_content_browser cong: option.case_cong)

lemma process_candidate_other_browser:
  "j \<noteq> q \<Longrightarrow>
   process_candidate (e\<lparr>browser := (browser e)(q := b)\<rparr>) clock j r = process_candidate e clock j r"
  by (simp add: process_candidate_def scrape_website_other_browser extract_lead_info_browser
        cong: option.case_cong if_cong)

lemma collect_leads_other_browser:
  "q < i \<or> i + length rs \<le> q \<Longrightarrow>
   collect_leads (e\<lparr>browser := (browser e)(q := b)\<rparr>) clock i rs = collect_leads e clock i rs"
proof (induction rs arbitrary: i)
  case Nil
  then show ?case by simp
next
  case (Cons r rs)
  then have "i \<noteq> q" and "q < Suc i \<or> Suc i + length rs \<le> q" by auto
  have pc: "process_candidate (e\<lparr>browser := (browser e)(q := b)\<rparr>) clock i r
              = process_candidate e clock i r"
    by (rule process_candidate_other_browser) fact
  have ih: "collect_leads (e\<lparr>browser := (browser e)(q := b)\<rparr>) clock (Suc i) rs
              = collect_leads e clock (Suc i) rs"
    by (rule Cons.IH) fact
  show ?case
    by (simp only: collect_leads.simps pc ih)
qed

lemma collect_leads_append:
  "collect_leads e clock i (xs @ ys) =
     (case collect_leads e clock i xs of
        (Inl err, ev) \<Rightarrow> (Inl err, ev)
      | (Inr before, ev) \<Rightarrow>
          (case collect_leads e clock (i + length xs) ys of
             (Inl err, evs) \<Rightarrow> (Inl err, ev @ evs)
           | (Inr after, evs) \<Rightarrow> (Inr (before @ after), ev @ evs)))"
proof (induction xs arbitrary: i)
  case Nil
  then show ?case by (simp split: prod.splits sum.splits)
next
  case (Cons x xs)
  show ?case
    using Cons.IH [of "Suc i"]
    by (simp split: prod.splits sum.splits option.splits)
qed

lemma process_candidate_total:
  "title (res r) \<noteq> None \<Longrightarrow> link (res r) \<noteq> None \<Longrightarrow>
   \<exists>lead. fst (process_candidate e clock i r) = Inr lead"
  by (auto simp: process_candidate_def Let_def split: option.splits)

lemma collect_leads_total:
  "\<forall>r\<in>set rs. title (res r) \<noteq> None \<and> link (res r) \<noteq> None \<Longrightarrow>
   \<exists>leads. fst (collect_leads e clock i rs) = Inr leads"
proof (induction rs arbitrary: i)
  case Nil
  then show ?case by simp
next
  case (Cons r rs)
  then obtain lead where "fst (process_candidate e clock i r) = Inr lead"
    using process_candidate_total [of r e clock i] by auto
  moreover obtain leads where "fst (collect_leads e clock (Suc i) rs) = Inr leads"
    using Cons.IH [of "Suc i"] Cons.prems by auto
  ultimately show ?case
    by (auto split: prod.splits sum.splits)
qed

text \<open>
  C7. Take a list of candidates with a title and a link, and one of them, \<open>r\<close>, whose
  fetch fails in the world \<open>e\<close>. Let \<open>e'\<close> be the same world except that the browser
  answers differently for the position of \<open>r\<close>, so that the fetch of \<open>r\<close> yields
  non-empty text. Then both runs of the per-candidate loop end normally, and the records
  of \<open>e'\<close> are the records of \<open>e\<close> with the record of \<open>r\<close> inserted at its place: one more
  record, and the records of the candidates before and after \<open>r\<close> are the same. (The
  extraction step cannot fail: \<open>extract_lead_info\<close> returns the regex record when the
  model's reply does not parse.)
\<close>

theorem fetch_failure_skips_one_candidate:
  assumes "\<forall>c\<in>set (xs @ ys). title (res c) \<noteq> None \<and> link (res c) \<noteq> None"
    and "title (res r) = Some t" and "link (res r) = Some l"
    and "scrape_website e (i + length xs) l = None"
    and "e' = e\<lparr>browser := (browser e)(i + length xs := b)\<rparr>"
    and "scrape_website e' (i + length xs) l = Some content" and "content \<noteq> []"
  shows "\<exists>before after.
           fst (collect_leads e clock i xs) = Inr before
         \<and> fst (collect_leads e clock (Suc (i + length xs)) ys) = Inr after
         \<and> fst (collect_leads e clock i (xs @ r # ys)) = Inr (before @ after)
         \<and> fst (collect_leads e' clock i (xs @ r # ys))
             = Inr (before
                    @ add_metadata r t (clock (i + length xs))
                        (extract_lead_info e (i + length xs) content l)
                    # after)"
proof -
  obtain before where b: "fst (collect_leads e clock i xs) = Inr before"
    using collect_leads_total [of xs e clock i] assms(1) by auto
  obtain after where a: "fst (collect_leads e clock (Suc (i + length xs)) ys) = Inr after"
    using collect_leads_total [of ys e clock "Suc (i + length xs)"] assms(1) by auto
  have b': "collect_leads e' clock i xs = collect_leads e clock i xs"
    unfolding assms(5) by (rule collect_leads_other_browser) simp
  have a': "collect_leads e' clock (Suc (i + length xs)) ys
              = collect_leads e clock (Suc (i + length xs)) ys"
    unfolding assms(5) by (rule collect_leads_other_browser) simp
  have x: "extract_lead_info e' (i + length xs) content l
             = extract_lead_info e (i + length xs) content l"
    unfolding assms(5) by (rule extract_lead_info_browser)
  have p: "process_candidate e clock (i + length xs) r = (Inr None, [FetchCall l])"
    using assms(2,3,4) by (simp add: process_candidate_def)
  have p': "process_candidate e' clock (i + length xs) r
              = (Inr (Some (add_metadata r t (clock (i + length xs))
                              (extract_lead_info e (i + length xs) content l))),
                 [FetchCall l, ExtractCall content l])"
    using assms(2,3,6,7) by (simp add: process_candidate_def x)
  have bp: "collect_leads e clock i xs = (Inr before, snd (collect_leads e clock i xs))"
    using b by (cases "collect_leads e clock i xs") simp
  have ap: "collect_leads e clock (Suc (i + length xs)) ys
              = (Inr after, snd (collect_leads e clock (Suc (i + length xs)) ys))"
    using a by (cases "collect_leads e clock (Suc (i + length xs)) ys") simp
  have r1: "collect_leads e clock (i + length xs) (r # ys)
              = (Inr after, [FetchCall l] @ snd (collect_leads e clock (Suc (i + length xs)) ys))"
    by (subst collect_leads.simps, subst p, subst ap) simp
  have r2: "collect_leads e' clock (i + length xs) (r # ys)
              = (Inr (add_metadata r t (clock (i + length xs))
                        (extract_lead_info e (i + length xs) content l) # after),
                 [FetchCall l, ExtractCall content l]
                   @ snd (collect_leads e clock (Suc (i + length xs)) ys))"
    by (subst collect_leads.simps, subst p', subst a', subst ap) simp
  have 1: "fst (collect_leads e clock i (xs @ r # ys)) = Inr (before @ after)"
    by (subst collect_leads_append, subst bp, subst r1) simp
  have 2: "fst (collect_leads e' clock i (xs @ r # ys))
             = Inr (before
                    @ add_metadata r t (clock (i + length xs))
                        (extract_lead_info e (i + length xs) content l)
                    # after)"
    by (subst collect_leads_append, subst b', subst bp, subst r2) simp
  show ?thesis using b a 1 2 by blast
qed

lemma acme_page: "clean_html_content null_env ''Acme sells CRM'' = ''Acme sells CRM''"
  by (simp add: clean_html_content_def null_env_def)

theorem fetch_failure_skips_one_candidate_witness:
  "fst (collect_leads site_env fixed_clock 1 [acme_relevant, acme_relevant, acme_relevant])
     = Inr [acme_lead ''2025-01-01T00:00:00'']
   \<and> fst (collect_leads (site_env\<lparr>browser := (browser site_env)(2 := (\<lambda>u. Some ''Acme sells CRM''))\<rparr>)
            fixed_clock 1 [acme_relevant, acme_relevant, acme_relevant])
       = Inr [acme_lead ''2025-01-01T00:00:00'', acme_lead ''2025-01-01T00:00:00'']"
proof -
  have s: "scrape_website site_env (1 + length [acme_relevant]) ''https://acme.example'' = None"
    by (simp add: scrape_website_def site_env_def null_env_def)
  have s': "scrape_website (site_env\<lparr>browser := (browser site_env)(1 + length [acme_relevant] := (\<lambda>u. Some ''Acme sells CRM''))\<rparr>)
              (1 + length [acme_relevant]) ''https://acme.example'' = Some ''Acme sells CRM''"
    using acme_page by (simp add: scrape_website_def site_env_def clean_html_content_def null_env_def)
  have t: "title (res acme_relevant) = Some ''Acme''" "link (res acme_relevant) = Some ''https://acme.example''"
    by (simp_all add: acme_relevant_def acme_def)
  have h: "\<forall>c\<in>set ([acme_relevant] @ [acme_relevant]). title (res c) \<noteq> None \<and> link (res c) \<noteq> None"
    using t by simp
  have c1: "fst (collect_leads site_env fixed_clock 1 [acme_relevant]) = Inr [acme_lead ''2025-01-01T00:00:00'']"
    using acme_page
    by (simp add: process_candidate_def scrape_website_def site_env_def null_env_def
        clean_html_content_def extract_lead_info_def add_metadata_def acme_relevant_def acme_def
        acme_lead_def fixed_clock_def str_or_empty_def)
  have c3: "fst (collect_leads site_env fixed_clock 3 [acme_relevant]) = Inr []"
    by (simp add: process_candidate_def scrape_website_def site_env_def null_env_def
        acme_relevant_def acme_def)
  have x: "add_metadata acme_relevant ''Acme'' (fixed_clock 2)
             (extract_lead_info site_env 2 ''Acme sells CRM'' ''https://acme.example'')
           = acme_lead ''2025-01-01T00:00:00''"
    by (simp add: extract_lead_info_def site_env_def null_env_def add_metadata_def
        acme_relevant_def acme_def acme_lead_def fixed_clock_def str_or_empty_def)
  have n: "Suc (1 + length [acme_relevant]) = 3" "1 + length [acme_relevant] = 2" by simp_all
  from fetch_failure_skips_one_candidate [OF h t s refl s', of fixed_clock]
  obtain before after where
    "fst (collect_leads site_env fixed_clock 1 [acme_relevant]) = Inr before"
    "fst (collect_leads site_env fixed_clock (Suc (1 + length [acme_relevant])) [acme_relevant]) = Inr after"
    "fst (collect_leads site_env fixed_clock 1 ([acme_relevant] @ acme_relevant # [acme_relevant])) = Inr (before @ after)"
    "fst (collect_leads (site_env\<lparr>browser := (browser site_env)(1 + length [acme_relevant] := (\<lambda>u. Some ''Acme sells CRM''))\<rparr>)
            fixed_clock 1 ([acme_relevant] @ acme_relevant # [acme_relevant]))
       = Inr (before @ add_metadata acme_relevant ''Acme'' (fixed_clock (1 + length [acme_relevant]))
                        (extract_lead_info site_env (1 + length [acme_relevant]) ''Acme sells CRM'' ''https://acme.example'') # after)"
    by blast
  then show ?thesis
    unfolding n using c1 c3 x by simp
qed

end
